theory Spec2Isabelle
  imports Complex_Main
begin

section \<open>Numeric cells\<close>

text \<open>
  A numeric cell of a pandas table is a float64 (an int64 column is widened to float64 by
  every division and by \<open>* 1.5\<close>). The model keeps the four kinds of value a cell can
  hold: a finite number, the two infinities that a division by zero produces, and NaN,
  which is also how pandas stores an empty cell. A finite value is carried as an exact
  real: rounding, overflow (to infinity in float64, wrap-around where two int64 columns
  are added or an int64 column is doubled) and the sign of zero are not modelled.
\<close>

datatype pyfloat = Fin real | PInf | NInf | NaN

fun is_nan :: "pyfloat \<Rightarrow> bool" where
  "is_nan NaN = True"
| "is_nan _ = False"

text \<open>Comparisons: every comparison with NaN is false.\<close>

fun flt :: "pyfloat \<Rightarrow> pyfloat \<Rightarrow> bool" where
  "flt (Fin a) (Fin b) = (a < b)"
| "flt (Fin a) PInf = True"
| "flt NInf (Fin b) = True"
| "flt NInf PInf = True"
| "flt _ _ = False"

fun fle :: "pyfloat \<Rightarrow> pyfloat \<Rightarrow> bool" where
  "fle (Fin a) (Fin b) = (a \<le> b)"
| "fle NaN _ = False"
| "fle _ NaN = False"
| "fle NInf _ = True"
| "fle _ PInf = True"
| "fle _ _ = False"

definition fgt :: "pyfloat \<Rightarrow> pyfloat \<Rightarrow> bool" where
  "fgt x y = flt y x"

definition fge :: "pyfloat \<Rightarrow> pyfloat \<Rightarrow> bool" where
  "fge x y = fle y x"

definition feq :: "pyfloat \<Rightarrow> pyfloat \<Rightarrow> bool" where
  "feq x y = (\<not> is_nan x \<and> x = y)"

text \<open>Arithmetic, with the IEEE results for infinities, NaN and division by zero.\<close>

definition signed_inf :: "real \<Rightarrow> pyfloat" where
  "signed_inf s = (if s = 0 then NaN else if 0 < s then PInf else NInf)"

fun fsgn :: "pyfloat \<Rightarrow> real" where
  "fsgn (Fin a) = sgn a"
| "fsgn PInf = 1"
| "fsgn NInf = - 1"
| "fsgn NaN = 0"

fun fneg :: "pyfloat \<Rightarrow> pyfloat" where
  "fneg (Fin a) = Fin (- a)"
| "fneg PInf = NInf"
| "fneg NInf = PInf"
| "fneg NaN = NaN"

fun fadd :: "pyfloat \<Rightarrow> pyfloat \<Rightarrow> pyfloat" where
  "fadd (Fin a) (Fin b) = Fin (a + b)"
| "fadd NaN _ = NaN"
| "fadd _ NaN = NaN"
| "fadd PInf NInf = NaN"
| "fadd NInf PInf = NaN"
| "fadd PInf _ = PInf"
| "fadd _ PInf = PInf"
| "fadd NInf _ = NInf"
| "fadd _ NInf = NInf"

definition fsub :: "pyfloat \<Rightarrow> pyfloat \<Rightarrow> pyfloat" where
  "fsub x y = fadd x (fneg y)"

fun fmul :: "pyfloat \<Rightarrow> pyfloat \<Rightarrow> pyfloat" where
  "fmul (Fin a) (Fin b) = Fin (a * b)"
| "fmul NaN _ = NaN"
| "fmul _ NaN = NaN"
| "fmul x y = signed_inf (fsgn x * fsgn y)"

fun fdiv :: "pyfloat \<Rightarrow> pyfloat \<Rightarrow> pyfloat" where
  "fdiv NaN _ = NaN"
| "fdiv _ NaN = NaN"
| "fdiv (Fin a) (Fin b) = (if b = 0 then signed_inf (sgn a) else Fin (a / b))"
| "fdiv (Fin a) _ = Fin 0"
| "fdiv x (Fin b) = signed_inf (fsgn x * (if b < 0 then - 1 else 1))"
| "fdiv _ _ = NaN"

text \<open>
  \<^verbatim>\<open>Series.replace(a, b)\<close>: a cell equal to \<open>a\<close> becomes \<open>b\<close>, every other
  cell (NaN included) is kept.
\<close>

definition replace :: "pyfloat \<Rightarrow> pyfloat \<Rightarrow> pyfloat \<Rightarrow> pyfloat" where
  "replace to_replace v x = (if feq x to_replace then v else x)"

text \<open>
  \<^verbatim>\<open>Series.clip(lower=l)\<close> with a scalar bound keeps NaN and the cells that are
  \<open>\<ge> l\<close>, and puts \<open>l\<close> elsewhere. \<^verbatim>\<open>Series.clip(upper=u)\<close> with a column
  of bounds keeps NaN and the cells that are \<open>\<le> u\<close>, a NaN bound meaning no bound.
\<close>

definition clip_lower :: "real \<Rightarrow> pyfloat \<Rightarrow> pyfloat" where
  "clip_lower l x = (if is_nan x \<or> fge x (Fin l) then x else Fin l)"

definition clip_upper :: "pyfloat \<Rightarrow> pyfloat \<Rightarrow> pyfloat" where
  "clip_upper u x = (if is_nan x \<or> fle x (if is_nan u then PInf else u) then x else u)"

section \<open>The inventory sheet\<close>

text \<open>
  One row of the spreadsheet. The fields are the sheet's columns:
  \<open>units_in_stock\<close> is 'Retailer number of units in stock',
  \<open>warehouse_units\<close> is 'Current number of units in DK warehouse',
  \<open>units_ordered\<close> is 'Number of units reatiler has ordered from DK',
  \<open>sales_last_week\<close> is 'Retailer sales out last week',
  \<open>forecast_this_week\<close>, \<open>forecast_4wk\<close> and \<open>forecast_12wk\<close> are
  'Forecast sales for this week', '... for next 4 weeks' and '... for next 12 weeks'.
\<close>

record row =
  isbn :: string
  product_title :: string
  brand :: string
  print_status :: string
  units_in_stock :: pyfloat
  warehouse_units :: pyfloat
  units_ordered :: pyfloat
  sales_last_week :: pyfloat
  forecast_this_week :: pyfloat
  forecast_4wk :: pyfloat
  forecast_12wk :: pyfloat

section \<open>book\_inventory\_risk\_dashboard.py: classify\_inventory\_risk\<close>

text \<open>
  A row of the table the classifier works on: the sheet's columns and the six columns the
  classifier assigns. \<open>None\<close> is a column the table does not have (yet).
\<close>

record risk_row = row +
  weeks_until_stockout :: "pyfloat option"
  dk_warehouse_to_weekly_sales_ratio :: "pyfloat option"
  total_available_to_12wk_forecast :: "pyfloat option"
  stock_to_weekly_sales_ratio :: "pyfloat option"
  ordered_vs_forecasted :: "pyfloat option"
  risk_category :: "string option"

text \<open>
  \<^verbatim>\<open>np.select(conditions, choices, default)\<close>, at one row: the choice of the first
  condition that holds, the default when none does.
\<close>

fun np_select :: "bool list \<Rightarrow> 'a list \<Rightarrow> 'a \<Rightarrow> 'a" where
  "np_select (c # cs) (v # vs) d = (if c then v else np_select cs vs d)"
| "np_select _ _ d = d"

text \<open>
  The body of \<open>classify_inventory_risk\<close> at one row (its column operations are all
  element-wise). The five assignments come first, in the source's order; the conditions
  read the columns just assigned.
\<close>

definition classify_row :: "risk_row \<Rightarrow> risk_row" where
  "classify_row r =
    (let wus = fdiv (units_in_stock r) (replace (Fin 0) (Fin 1) (forecast_this_week r));
         w2s = fdiv (warehouse_units r) (replace (Fin 0) (Fin 1) (sales_last_week r));
         t12 = fdiv (fadd (units_in_stock r) (warehouse_units r))
                    (replace (Fin 0) (Fin 1) (forecast_12wk r));
         s2s = fdiv (units_in_stock r) (replace (Fin 0) (Fin 1) (sales_last_week r));
         ovf = fdiv (units_ordered r) (replace (Fin 0) (Fin 1) (forecast_4wk r));
         conditions =
           [flt wus (Fin 2) \<and> flt w2s (Fin 4),
            fgt t12 (Fin 20) \<or> (fgt s2s (Fin 12) \<and> fgt ovf (Fin 1.5))];
         choices = [''high_stockout_risk'', ''overstocking_risk'']
     in r\<lparr>weeks_until_stockout := Some wus,
          dk_warehouse_to_weekly_sales_ratio := Some w2s,
          total_available_to_12wk_forecast := Some t12,
          stock_to_weekly_sales_ratio := Some s2s,
          ordered_vs_forecasted := Some ovf,
          risk_category := Some (np_select conditions choices ''normal'')\<rparr>)"

text \<open>
  The function assigns the columns into the table it is given and returns that same
  table object. The store maps a table object to its rows; the function returns the
  updated store and the object it returns.
\<close>

type_synonym table_ref = nat
type_synonym store = "table_ref \<Rightarrow> risk_row list"

definition classify_inventory_risk :: "store \<Rightarrow> table_ref \<Rightarrow> store \<times> table_ref" where
  "classify_inventory_risk s df = (s(df := map classify_row (s df)), df)"

text \<open>A sheet row as \<open>load_data\<close> delivers it: none of the derived columns exists.\<close>

definition loaded :: "row \<Rightarrow> risk_row" where
  "loaded r = row.extend r
     \<lparr>weeks_until_stockout = None, dk_warehouse_to_weekly_sales_ratio = None,
      total_available_to_12wk_forecast = None, stock_to_weekly_sales_ratio = None,
      ordered_vs_forecasted = None, risk_category = None\<rparr>"

definition sheet_row :: "string \<Rightarrow> pyfloat \<Rightarrow> pyfloat \<Rightarrow> pyfloat \<Rightarrow> pyfloat \<Rightarrow> pyfloat
    \<Rightarrow> pyfloat \<Rightarrow> pyfloat \<Rightarrow> row" where
  "sheet_row st s w ordered sl f1 f4 f12 =
     \<lparr>isbn = ''9780241000000'', product_title = ''Title'', brand = ''DK'', print_status = st,
      units_in_stock = s, warehouse_units = w, units_ordered = ordered, sales_last_week = sl,
      forecast_this_week = f1, forecast_4wk = f4, forecast_12wk = f12\<rparr>"

section \<open>book\_inventory\_dashboard.py\<close>

text \<open>
  The script derives its columns from the filtered sheet. A derived column is modelled
  as the function that computes its cell from the row; a selection of rows as a list.
\<close>

subsection \<open>Inventory Health\<close>

definition calculated_wos :: "row \<Rightarrow> pyfloat" where
  "calculated_wos r = fdiv (units_in_stock r) (clip_lower 0.1 (forecast_this_week r))"

definition wos_bins :: "pyfloat list" where
  "wos_bins = [Fin 0, Fin 4, Fin 8, Fin 12, Fin 16, Fin 20, Fin 24, PInf]"

definition wos_labels :: "string list" where
  "wos_labels = [''0-4 weeks'', ''4-8 weeks'', ''8-12 weeks'', ''12-16 weeks'',
                 ''16-20 weeks'', ''20-24 weeks'', ''24+ weeks'']"

text \<open>
  \<^verbatim>\<open>pd.cut(x, bins=bins, labels=labels)\<close> with the defaults \<open>right=True\<close> and
  \<open>include_lowest=False\<close>, as the script calls it. pandas looks the value up with
  \<open>bins.searchsorted(x, side='left')\<close>, the number of edges strictly below the value
  in the sorted edge list; the value has no category (\<open>None\<close>, pandas' NaN category)
  when it is NaN or the index is \<open>0\<close> or \<open>len(bins)\<close>, and else the label at
  \<open>index - 1\<close>.
\<close>

fun searchsorted_left :: "pyfloat list \<Rightarrow> pyfloat \<Rightarrow> nat" where
  "searchsorted_left [] x = 0"
| "searchsorted_left (b # bs) x = (if flt b x then Suc (searchsorted_left bs x) else 0)"

definition pd_cut :: "pyfloat list \<Rightarrow> string list \<Rightarrow> pyfloat \<Rightarrow> string option" where
  "pd_cut bins labels x =
     (let ids = searchsorted_left bins x
      in if is_nan x \<or> ids = length bins \<or> ids = 0 then None
         else Some (labels ! (ids - 1)))"

definition wos_category :: "row \<Rightarrow> string option" where
  "wos_category r = pd_cut wos_bins wos_labels (calculated_wos r)"

text \<open>
  \<open>brand_health\<close>: one row per brand, from \<open>groupby('Brand').agg\<close>. The sums and the
  mean skip NaN cells, as pandas does. The Stock Coverage Ratio divides the two sums.
\<close>

definition sum_skipna :: "pyfloat list \<Rightarrow> pyfloat" where
  "sum_skipna xs = foldl fadd (Fin 0) (filter (\<lambda>x. \<not> is_nan x) xs)"

definition mean_skipna :: "pyfloat list \<Rightarrow> pyfloat" where
  "mean_skipna xs =
     (let ys = filter (\<lambda>x. \<not> is_nan x) xs
      in if ys = [] then NaN else fdiv (foldl fadd (Fin 0) ys) (Fin (real (length ys))))"

record brand_health_row =
  bh_brand :: string
  avg_wos :: pyfloat
  total_stock :: pyfloat
  forecast_4wk_sales :: pyfloat
  title_count :: nat
  stock_coverage_ratio :: pyfloat

definition brand_health :: "row list \<Rightarrow> string \<Rightarrow> brand_health_row" where
  "brand_health filtered_df b =
     (let g = filter (\<lambda>r. brand r = b) filtered_df;
          stock = sum_skipna (map units_in_stock g);
          fc = sum_skipna (map forecast_4wk g)
      in \<lparr>bh_brand = b, avg_wos = mean_skipna (map calculated_wos g), total_stock = stock,
          forecast_4wk_sales = fc, title_count = length g,
          stock_coverage_ratio = fdiv stock fc\<rparr>)"

subsection \<open>Stock Replenishment\<close>

definition weeks_coverage :: "row \<Rightarrow> pyfloat" where
  "weeks_coverage r =
     fdiv (units_in_stock r) (clip_lower 0.1 (fdiv (forecast_4wk r) (Fin 4)))"

text \<open>
  \<^verbatim>\<open>sort_values(key)\<close>: ascending, NaN last. pandas does not fix the order of rows
  with equal keys; the model keeps their order.
\<close>

fun insert_by :: "('a \<Rightarrow> pyfloat) \<Rightarrow> 'a \<Rightarrow> 'a list \<Rightarrow> 'a list" where
  "insert_by k x [] = [x]"
| "insert_by k x (y # ys) =
     (if fle (k x) (k y) \<or> is_nan (k y) then x # y # ys else y # insert_by k x ys)"

definition sort_values :: "('a \<Rightarrow> pyfloat) \<Rightarrow> 'a list \<Rightarrow> 'a list" where
  "sort_values k xs = foldr (insert_by k) xs []"

definition reprint_candidates :: "row list \<Rightarrow> row list" where
  "reprint_candidates filtered_df =
     sort_values weeks_coverage
       (filter (\<lambda>r. flt (weeks_coverage r) (Fin 6) \<and>
                    flt (warehouse_units r) (forecast_4wk r) \<and>
                    print_status r \<noteq> ''Out of Print'') filtered_df)"

definition recommended_reprint :: "row \<Rightarrow> pyfloat" where
  "recommended_reprint r =
     clip_lower 0 (fsub (fsub (fmul (forecast_12wk r) (Fin 1.5)) (units_in_stock r))
                        (warehouse_units r))"

definition redistribution_candidates :: "row list \<Rightarrow> row list" where
  "redistribution_candidates filtered_df =
     sort_values weeks_coverage
       (filter (\<lambda>r. flt (weeks_coverage r) (Fin 8) \<and>
                    fgt (warehouse_units r) (fmul (forecast_4wk r) (Fin 0.5))) filtered_df)"

definition recommended_transfer :: "row \<Rightarrow> pyfloat" where
  "recommended_transfer r =
     clip_upper (warehouse_units r)
       (clip_lower 0 (fsub (fmul (forecast_4wk r) (Fin 2)) (units_in_stock r)))"

subsection \<open>Custom Report\<close>

text \<open>
  The user's choices: the columns to show and the three check boxes. Each calculated
  column is added only when its box is ticked and the columns it reads are selected;
  \<open>None\<close> is a column the report does not have. The model is the computation of
  the three calculated cells of one row of the report (lines 463 to 474 of the script);
  the assembly of the report table around it (the test that a column is selected, the
  final sort by the chosen column, the download) is not modelled.
\<close>

record report_opts =
  selected_columns :: "string list"
  add_wos :: bool
  add_coverage_ratio :: bool
  add_reprint_recommendation :: bool

record report_row = row +
  weeks_of_supply :: "pyfloat option"
  coverage_ratio_4wk :: "pyfloat option"
  reprint_recommendation :: "pyfloat option"

definition custom_report_row :: "report_opts \<Rightarrow> row \<Rightarrow> report_row" where
  "custom_report_row opts r = row.extend r
     \<lparr>weeks_of_supply =
        (if add_wos opts \<and>
            ''Retailer number of units in stock'' \<in> set (selected_columns opts) \<and>
            ''Forecast sales for this week'' \<in> set (selected_columns opts)
         then Some (fdiv (units_in_stock r) (clip_lower 0.1 (forecast_this_week r)))
         else None),
      coverage_ratio_4wk =
        (if add_coverage_ratio opts \<and>
            ''Retailer number of units in stock'' \<in> set (selected_columns opts) \<and>
            ''Forecast sales for next 4 weeks'' \<in> set (selected_columns opts)
         then Some (fdiv (units_in_stock r) (forecast_4wk r))
         else None),
      reprint_recommendation =
        (if add_reprint_recommendation opts \<and>
            ''Retailer number of units in stock'' \<in> set (selected_columns opts) \<and>
            ''Current number of units in DK warehouse'' \<in> set (selected_columns opts) \<and>
            ''Forecast sales for next 12 weeks'' \<in> set (selected_columns opts)
         then Some (clip_lower 0
                (fsub (fsub (fmul (forecast_12wk r) (Fin 1.2)) (units_in_stock r))
                      (warehouse_units r)))
         else None)\<rparr>"

section \<open>dk\_airflow.py: generate\_report\<close>

text \<open>
  The job reads the table from a CSV file, adds the column 'Stock Risk' row by row and
  writes the table to a spreadsheet: a function from the table read to the table written.
\<close>

record airflow_row = row +
  stock_risk :: string

definition stock_risk_of :: "row \<Rightarrow> string" where
  "stock_risk_of r =
     (if flt (fadd (units_in_stock r) (warehouse_units r)) (forecast_4wk r) then ''High''
      else ''Low'')"

definition generate_report :: "row list \<Rightarrow> airflow_row list" where
  "generate_report df = map (\<lambda>r. row.extend r \<lparr>stock_risk = stock_risk_of r\<rparr>) df"

section \<open>Test rows\<close>

definition r_both :: risk_row where
  "r_both = loaded (sheet_row ''In Print'' (Fin 10) (Fin 500) (Fin 0) (Fin 200) (Fin 10)
                      (Fin 40) (Fin 10))"

definition r_half :: risk_row where
  "r_half = loaded (sheet_row ''In Print'' (Fin 10) (Fin 5) (Fin 0) (Fin 20) (Fin (1/2))
                      (Fin 40) (Fin 120))"

definition row_zero :: row where
  "row_zero = sheet_row ''In Print'' (Fin 10) (Fin 5) (Fin 3) (Fin 0) (Fin 0) (Fin 0) (Fin 0)"

definition r_zero :: risk_row where
  "r_zero = loaded row_zero"

definition r_nan :: risk_row where
  "r_nan = loaded (sheet_row ''In Print'' NaN NaN NaN NaN NaN NaN NaN)"

definition r_over :: risk_row where
  "r_over = loaded (sheet_row ''In Print'' (Fin 300) (Fin 100) (Fin 0) (Fin 20) (Fin 10)
                      (Fin 40) (Fin 10))"

definition r_noforecast :: risk_row where
  "r_noforecast = loaded (sheet_row ''In Print'' (Fin 10) (Fin 5) (Fin 0) (Fin 20) NaN
                            (Fin 40) (Fin 120))"

definition r_nostock :: risk_row where
  "r_nostock = loaded (sheet_row ''In Print'' NaN (Fin 5) (Fin 0) (Fin 20) (Fin 10)
                         (Fin 40) (Fin 120))"

definition row_reprint :: row where
  "row_reprint = sheet_row ''In Print'' (Fin 50) (Fin 20) (Fin 0) (Fin 12) (Fin 10) (Fin 40)
                   (Fin 120)"

definition row_transfer :: row where
  "row_transfer = sheet_row ''Out of Print'' (Fin 50) (Fin 35) (Fin 0) (Fin 12) (Fin 10)
                    (Fin 60) (Fin 180)"

definition row_boundary :: row where
  "row_boundary = sheet_row ''In Print'' (Fin 40) (Fin 5) (Fin 0) (Fin 12) (Fin 10) (Fin 40)
                    (Fin 120)"

definition row_empty_shelf :: row where
  "row_empty_shelf = sheet_row ''In Print'' (Fin 0) (Fin 5) (Fin 0) (Fin 12) (Fin 10) (Fin 40)
                       (Fin 120)"

definition row_short :: row where
  "row_short = sheet_row ''In Print'' (Fin 10) (Fin 5) (Fin 0) (Fin 12) (Fin 10) (Fin 40)
                 (Fin 100)"

definition opts_all :: report_opts where
  "opts_all =
     \<lparr>selected_columns =
        [''ISBN'', ''Retailer number of units in stock'',
         ''Current number of units in DK warehouse'', ''Forecast sales for this week'',
         ''Forecast sales for next 4 weeks'', ''Forecast sales for next 12 weeks''],
      add_wos = True, add_coverage_ratio = True, add_reprint_recommendation = True\<rparr>"

definition store0 :: store where
  "store0 = (\<lambda>_. [r_both])"

section \<open>The spec's formula for a guarded ratio\<close>

text \<open>
  Written from the spec's words, to be compared with the classifier:
  \<open>numerator / max(denominator, floor)\<close>.
\<close>

definition spec_floor_ratio :: "real \<Rightarrow> real \<Rightarrow> real \<Rightarrow> real" where
  "spec_floor_ratio n d fl = n / max d fl"

section \<open>Facts about the classifier\<close>

lemma replace_zero_Fin: "replace (Fin 0) (Fin 1) (Fin d) = Fin (if d = 0 then 1 else d)"
  by (simp add: replace_def feq_def)

lemma fdiv_replace_Fin:
  "fdiv (Fin n) (replace (Fin 0) (Fin 1) (Fin d)) = Fin (n / (if d = 0 then 1 else d))"
  by (simp add: replace_zero_Fin)

lemma classify_row_wus:
  "weeks_until_stockout (classify_row r) =
     Some (fdiv (units_in_stock r) (replace (Fin 0) (Fin 1) (forecast_this_week r)))"
  by (simp add: classify_row_def Let_def)

lemma classify_row_w2s:
  "dk_warehouse_to_weekly_sales_ratio (classify_row r) =
     Some (fdiv (warehouse_units r) (replace (Fin 0) (Fin 1) (sales_last_week r)))"
  by (simp add: classify_row_def Let_def)

lemma classify_row_t12:
  "total_available_to_12wk_forecast (classify_row r) =
     Some (fdiv (fadd (units_in_stock r) (warehouse_units r))
                (replace (Fin 0) (Fin 1) (forecast_12wk r)))"
  by (simp add: classify_row_def Let_def)

lemma classify_row_s2s:
  "stock_to_weekly_sales_ratio (classify_row r) =
     Some (fdiv (units_in_stock r) (replace (Fin 0) (Fin 1) (sales_last_week r)))"
  by (simp add: classify_row_def Let_def)

lemma classify_row_ovf:
  "ordered_vs_forecasted (classify_row r) =
     Some (fdiv (units_ordered r) (replace (Fin 0) (Fin 1) (forecast_4wk r)))"
  by (simp add: classify_row_def Let_def)

lemma classify_row_label:
  "risk_category (classify_row r) =
     Some (if flt (fdiv (units_in_stock r) (replace (Fin 0) (Fin 1) (forecast_this_week r)))
                  (Fin 2) \<and>
              flt (fdiv (warehouse_units r) (replace (Fin 0) (Fin 1) (sales_last_week r)))
                  (Fin 4)
           then ''high_stockout_risk''
           else if fgt (fdiv (fadd (units_in_stock r) (warehouse_units r))
                             (replace (Fin 0) (Fin 1) (forecast_12wk r))) (Fin 20) \<or>
                   (fgt (fdiv (units_in_stock r)
                              (replace (Fin 0) (Fin 1) (sales_last_week r))) (Fin 12) \<and>
                    fgt (fdiv (units_ordered r)
                              (replace (Fin 0) (Fin 1) (forecast_4wk r))) (Fin 1.5))
           then ''overstocking_risk'' else ''normal'')"
  by (simp add: classify_row_def Let_def)

lemma classify_row_inputs:
  "units_in_stock (classify_row r) = units_in_stock r"
  "warehouse_units (classify_row r) = warehouse_units r"
  "units_ordered (classify_row r) = units_ordered r"
  "sales_last_week (classify_row r) = sales_last_week r"
  "forecast_this_week (classify_row r) = forecast_this_week r"
  "forecast_4wk (classify_row r) = forecast_4wk r"
  "forecast_12wk (classify_row r) = forecast_12wk r"
  by (simp_all add: classify_row_def Let_def)

lemma r_both_fields:
  "units_in_stock r_both = Fin 10" "warehouse_units r_both = Fin 500"
  "units_ordered r_both = Fin 0" "sales_last_week r_both = Fin 200"
  "forecast_this_week r_both = Fin 10" "forecast_4wk r_both = Fin 40"
  "forecast_12wk r_both = Fin 10"
  by (simp_all add: r_both_def loaded_def sheet_row_def row.defs)

lemma r_half_fields:
  "units_in_stock r_half = Fin 10" "warehouse_units r_half = Fin 5"
  "units_ordered r_half = Fin 0" "sales_last_week r_half = Fin 20"
  "forecast_this_week r_half = Fin (1/2)" "forecast_4wk r_half = Fin 40"
  "forecast_12wk r_half = Fin 120"
  by (simp_all add: r_half_def loaded_def sheet_row_def row.defs)

lemma r_zero_fields:
  "units_in_stock r_zero = Fin 10" "warehouse_units r_zero = Fin 5"
  "units_ordered r_zero = Fin 3" "sales_last_week r_zero = Fin 0"
  "forecast_this_week r_zero = Fin 0" "forecast_4wk r_zero = Fin 0"
  "forecast_12wk r_zero = Fin 0"
  by (simp_all add: r_zero_def row_zero_def loaded_def sheet_row_def row.defs)

lemma r_nan_fields:
  "units_in_stock r_nan = NaN" "warehouse_units r_nan = NaN"
  "units_ordered r_nan = NaN" "sales_last_week r_nan = NaN"
  "forecast_this_week r_nan = NaN" "forecast_4wk r_nan = NaN"
  "forecast_12wk r_nan = NaN"
  by (simp_all add: r_nan_def loaded_def sheet_row_def row.defs)

lemma r_nostock_fields:
  "units_in_stock r_nostock = NaN" "warehouse_units r_nostock = Fin 5"
  "units_ordered r_nostock = Fin 0" "sales_last_week r_nostock = Fin 20"
  "forecast_this_week r_nostock = Fin 10" "forecast_4wk r_nostock = Fin 40"
  "forecast_12wk r_nostock = Fin 120"
  by (simp_all add: r_nostock_def loaded_def sheet_row_def row.defs)

lemma replaced_eq_max:
  "d = 0 \<or> 1 \<le> d \<Longrightarrow> n / (if d = 0 then 1 else d) = spec_floor_ratio n d 1"
  by (auto simp: spec_floor_ratio_def max_def)

lemma classify_row_label_cases:
  "risk_category (classify_row r) = Some ''high_stockout_risk'' \<or>
   risk_category (classify_row r) = Some ''overstocking_risk'' \<or>
   risk_category (classify_row r) = Some ''normal''"
  unfolding classify_row_label by simp

lemma classify_row_idem: "classify_row (classify_row r) = classify_row r"
  by (simp add: classify_row_def Let_def)

lemma classify_row_truncate: "row.truncate (classify_row r) = row.truncate r"
  by (simp add: classify_row_def Let_def row.defs)

lemma r_over_fields:
  "units_in_stock r_over = Fin 300" "warehouse_units r_over = Fin 100"
  "units_ordered r_over = Fin 0" "sales_last_week r_over = Fin 20"
  "forecast_this_week r_over = Fin 10" "forecast_4wk r_over = Fin 40"
  "forecast_12wk r_over = Fin 10"
  by (simp_all add: r_over_def loaded_def sheet_row_def row.defs)

lemma r_noforecast_fields:
  "units_in_stock r_noforecast = Fin 10" "warehouse_units r_noforecast = Fin 5"
  "units_ordered r_noforecast = Fin 0" "sales_last_week r_noforecast = Fin 20"
  "forecast_this_week r_noforecast = NaN" "forecast_4wk r_noforecast = Fin 40"
  "forecast_12wk r_noforecast = Fin 120"
  by (simp_all add: r_noforecast_def loaded_def sheet_row_def row.defs)

lemma is_nan_iff: "is_nan x \<longleftrightarrow> x = NaN"
  by (cases x) simp_all

lemma fdiv_NaN_right: "fdiv x NaN = NaN"
  by (cases x) simp_all

lemma fadd_NaN_right: "fadd x NaN = NaN"
  by (cases x) simp_all

lemma replace_NaN: "replace a b NaN = NaN"
  by (simp add: replace_def feq_def)

lemma flt_NaN: "\<not> flt NaN x" "\<not> flt x NaN" "\<not> fgt NaN x" "\<not> fgt x NaN"
  by (cases x; simp add: fgt_def)+

section \<open>Facts about the dashboard\<close>

lemma clip_lower_Fin: "clip_lower l (Fin y) = Fin (max y l)"
  by (simp add: clip_lower_def fge_def max_def)

lemma clip_lower_not_neg: "l \<ge> 0 \<Longrightarrow> \<not> flt (clip_lower l x) (Fin 0)"
  by (cases x) (auto simp: clip_lower_def fge_def)

lemma clip_upper_not_above: "\<not> fgt (clip_upper u x) u"
  by (cases u; cases x) (auto simp: clip_upper_def fgt_def)

lemma clip_upper_not_neg:
  "fle (Fin 0) u \<Longrightarrow> \<not> flt x (Fin 0) \<Longrightarrow> \<not> flt (clip_upper u x) (Fin 0)"
  by (cases u; cases x) (auto simp: clip_upper_def)

lemma set_insert_by: "set (insert_by k x ys) = insert x (set ys)"
  by (induction ys) auto

lemma set_sort_values: "set (sort_values k xs) = set xs"
  unfolding sort_values_def by (induction xs) (simp_all add: set_insert_by)

lemma pd_cut_wos_pos:
  assumes "0 < x"
  shows "pd_cut wos_bins wos_labels (Fin x) =
     Some (if x \<le> 4 then ''0-4 weeks'' else if x \<le> 8 then ''4-8 weeks''
           else if x \<le> 12 then ''8-12 weeks'' else if x \<le> 16 then ''12-16 weeks''
           else if x \<le> 20 then ''16-20 weeks'' else if x \<le> 24 then ''20-24 weeks''
           else ''24+ weeks'')"
  using assms by (simp add: pd_cut_def wos_bins_def wos_labels_def Let_def)

lemma weeks_coverage_Fin:
  assumes "units_in_stock r = Fin s" and "forecast_4wk r = Fin f4"
  shows "weeks_coverage r = Fin (s / max (f4 / 4) (1/10))"
proof -
  have "max (f4 / 4) (1/10) \<noteq> 0" by (simp add: max_def)
  then show ?thesis
    unfolding weeks_coverage_def assms by (simp add: clip_lower_Fin)
qed

lemma recommended_reprint_Fin:
  assumes "units_in_stock r = Fin s" and "warehouse_units r = Fin w"
    and "forecast_12wk r = Fin f12"
  shows "recommended_reprint r = Fin (max 0 (f12 * 1.5 - s - w))"
  unfolding recommended_reprint_def assms
  by (simp add: fsub_def clip_lower_Fin max.commute)

lemma recommended_transfer_Fin:
  assumes "units_in_stock r = Fin s" and "warehouse_units r = Fin w"
    and "forecast_4wk r = Fin f4"
  shows "recommended_transfer r = Fin (min w (max 0 (f4 * 2 - s)))"
  unfolding recommended_transfer_def assms
  by (simp add: fsub_def clip_lower_Fin clip_upper_def min_def max_def)

lemma custom_report_row_cols:
  "weeks_of_supply (custom_report_row opts r) =
     (if add_wos opts \<and>
         ''Retailer number of units in stock'' \<in> set (selected_columns opts) \<and>
         ''Forecast sales for this week'' \<in> set (selected_columns opts)
      then Some (fdiv (units_in_stock r) (clip_lower 0.1 (forecast_this_week r)))
      else None)"
  "coverage_ratio_4wk (custom_report_row opts r) =
     (if add_coverage_ratio opts \<and>
         ''Retailer number of units in stock'' \<in> set (selected_columns opts) \<and>
         ''Forecast sales for next 4 weeks'' \<in> set (selected_columns opts)
      then Some (fdiv (units_in_stock r) (forecast_4wk r))
      else None)"
  "reprint_recommendation (custom_report_row opts r) =
     (if add_reprint_recommendation opts \<and>
         ''Retailer number of units in stock'' \<in> set (selected_columns opts) \<and>
         ''Current number of units in DK warehouse'' \<in> set (selected_columns opts) \<and>
         ''Forecast sales for next 12 weeks'' \<in> set (selected_columns opts)
      then Some (clip_lower 0
             (fsub (fsub (fmul (forecast_12wk r) (Fin 1.2)) (units_in_stock r))
                   (warehouse_units r)))
      else None)"
  by (simp_all add: custom_report_row_def row.defs)

lemma row_boundary_fields:
  "units_in_stock row_boundary = Fin 40" "forecast_this_week row_boundary = Fin 10"
  by (simp_all add: row_boundary_def sheet_row_def)

lemma row_empty_shelf_fields:
  "units_in_stock row_empty_shelf = Fin 0" "forecast_this_week row_empty_shelf = Fin 10"
  by (simp_all add: row_empty_shelf_def sheet_row_def)

lemma row_reprint_fields:
  "units_in_stock row_reprint = Fin 50" "warehouse_units row_reprint = Fin 20"
  "forecast_4wk row_reprint = Fin 40" "forecast_12wk row_reprint = Fin 120"
  "print_status row_reprint = ''In Print''"
  by (simp_all add: row_reprint_def sheet_row_def)

lemma row_transfer_fields:
  "units_in_stock row_transfer = Fin 50" "warehouse_units row_transfer = Fin 35"
  "forecast_4wk row_transfer = Fin 60" "forecast_12wk row_transfer = Fin 180"
  "print_status row_transfer = ''Out of Print''"
  by (simp_all add: row_transfer_def sheet_row_def)

lemma row_zero_fields:
  "units_in_stock row_zero = Fin 10" "warehouse_units row_zero = Fin 5"
  "forecast_this_week row_zero = Fin 0" "forecast_4wk row_zero = Fin 0"
  "forecast_12wk row_zero = Fin 0" "brand row_zero = ''DK''"
  by (simp_all add: row_zero_def sheet_row_def)

lemma row_short_fields:
  "units_in_stock row_short = Fin 10" "warehouse_units row_short = Fin 5"
  "forecast_12wk row_short = Fin 100"
  by (simp_all add: row_short_def sheet_row_def)

lemma opts_all_fields:
  "add_wos opts_all" "add_coverage_ratio opts_all" "add_reprint_recommendation opts_all"
  "''Retailer number of units in stock'' \<in> set (selected_columns opts_all)"
  "''Current number of units in DK warehouse'' \<in> set (selected_columns opts_all)"
  "''Forecast sales for this week'' \<in> set (selected_columns opts_all)"
  "''Forecast sales for next 4 weeks'' \<in> set (selected_columns opts_all)"
  "''Forecast sales for next 12 weeks'' \<in> set (selected_columns opts_all)"
  by (simp_all add: opts_all_def)

section \<open>Claims\<close>

text \<open>
  C1. For a record whose seven numeric fields are all present, the five metrics are the
  quotients of its fields (a denominator of 0 replaced by 1) and the label is decided by
  rule 1, then rule 2, then the default: 'high\_stockout\_risk' if
  weeks\_until\_stockout < 2 and warehouse\_to\_weekly\_sales\_ratio < 4; otherwise
  'overstocking\_risk' if total\_available\_to\_12wk\_forecast > 20 or
  (stock\_to\_weekly\_sales\_ratio > 12 and ordered\_vs\_forecasted > 1.5); otherwise
  'normal'. A record that meets both rules is 'high\_stockout\_risk', and the label is
  always one of the three.
\<close>

theorem classify_rule_order:
  assumes "units_in_stock r = Fin s" and "warehouse_units r = Fin w"
    and "units_ordered r = Fin ordered" and "sales_last_week r = Fin sl"
    and "forecast_this_week r = Fin f1" and "forecast_4wk r = Fin f4"
    and "forecast_12wk r = Fin f12"
  shows
    "weeks_until_stockout (classify_row r) = Some (Fin (s / (if f1 = 0 then 1 else f1))) \<and>
     dk_warehouse_to_weekly_sales_ratio (classify_row r) =
       Some (Fin (w / (if sl = 0 then 1 else sl))) \<and>
     total_available_to_12wk_forecast (classify_row r) =
       Some (Fin ((s + w) / (if f12 = 0 then 1 else f12))) \<and>
     stock_to_weekly_sales_ratio (classify_row r) =
       Some (Fin (s / (if sl = 0 then 1 else sl))) \<and>
     ordered_vs_forecasted (classify_row r) =
       Some (Fin (ordered / (if f4 = 0 then 1 else f4))) \<and>
     risk_category (classify_row r) =
       Some (if s / (if f1 = 0 then 1 else f1) < 2 \<and> w / (if sl = 0 then 1 else sl) < 4
             then ''high_stockout_risk''
             else if (s + w) / (if f12 = 0 then 1 else f12) > 20 \<or>
                     (s / (if sl = 0 then 1 else sl) > 12 \<and>
                      ordered / (if f4 = 0 then 1 else f4) > 1.5)
             then ''overstocking_risk'' else ''normal'') \<and>
     (s / (if f1 = 0 then 1 else f1) < 2 \<and> w / (if sl = 0 then 1 else sl) < 4 \<and>
      ((s + w) / (if f12 = 0 then 1 else f12) > 20 \<or>
       (s / (if sl = 0 then 1 else sl) > 12 \<and> ordered / (if f4 = 0 then 1 else f4) > 1.5))
        \<longrightarrow> risk_category (classify_row r) = Some ''high_stockout_risk'') \<and>
     risk_category (classify_row r) \<in>
        {Some ''high_stockout_risk'', Some ''overstocking_risk'', Some ''normal''}"
proof -
  define d1 where "d1 = (if f1 = 0 then 1 else f1)"
  define dsl where "dsl = (if sl = 0 then 1 else sl)"
  define d12 where "d12 = (if f12 = 0 then 1 else f12)"
  define d4 where "d4 = (if f4 = 0 then 1 else f4)"
  have 1: "weeks_until_stockout (classify_row r) = Some (Fin (s / d1))"
    unfolding classify_row_wus assms fdiv_replace_Fin d1_def ..
  have 2: "dk_warehouse_to_weekly_sales_ratio (classify_row r) = Some (Fin (w / dsl))"
    unfolding classify_row_w2s assms fdiv_replace_Fin dsl_def ..
  have 3: "total_available_to_12wk_forecast (classify_row r) = Some (Fin ((s + w) / d12))"
    unfolding classify_row_t12 assms fadd.simps fdiv_replace_Fin d12_def ..
  have 4: "stock_to_weekly_sales_ratio (classify_row r) = Some (Fin (s / dsl))"
    unfolding classify_row_s2s assms fdiv_replace_Fin dsl_def ..
  have 5: "ordered_vs_forecasted (classify_row r) = Some (Fin (ordered / d4))"
    unfolding classify_row_ovf assms fdiv_replace_Fin d4_def ..
  have 6: "risk_category (classify_row r) =
       Some (if s / d1 < 2 \<and> w / dsl < 4 then ''high_stockout_risk''
             else if (s + w) / d12 > 20 \<or> (s / dsl > 12 \<and> ordered / d4 > 1.5)
             then ''overstocking_risk'' else ''normal'')"
    unfolding classify_row_label [of r] assms fadd.simps fdiv_replace_Fin fgt_def flt.simps
      d1_def dsl_def d12_def d4_def ..
  have 7: "s / d1 < 2 \<and> w / dsl < 4 \<and>
      ((s + w) / d12 > 20 \<or> (s / dsl > 12 \<and> ordered / d4 > 1.5))
        \<longrightarrow> risk_category (classify_row r) = Some ''high_stockout_risk''"
    unfolding 6 by simp
  have 8: "risk_category (classify_row r) \<in>
        {Some ''high_stockout_risk'', Some ''overstocking_risk'', Some ''normal''}"
    unfolding 6 by simp
  from 1 2 3 4 5 6 7 8 show ?thesis
    unfolding d1_def dsl_def d12_def d4_def by blast
qed

theorem classify_rule_order_witness:
  "units_in_stock r_both = Fin 10 \<and> warehouse_units r_both = Fin 500 \<and>
   units_ordered r_both = Fin 0 \<and> sales_last_week r_both = Fin 200 \<and>
   forecast_this_week r_both = Fin 10 \<and> forecast_4wk r_both = Fin 40 \<and>
   forecast_12wk r_both = Fin 10 \<and>
   weeks_until_stockout (classify_row r_both) = Some (Fin 1) \<and>
   dk_warehouse_to_weekly_sales_ratio (classify_row r_both) = Some (Fin (5/2)) \<and>
   total_available_to_12wk_forecast (classify_row r_both) = Some (Fin 51) \<and>
   risk_category (classify_row r_both) = Some ''high_stockout_risk'' \<and>
   units_in_stock r_over = Fin 300 \<and> warehouse_units r_over = Fin 100 \<and>
   forecast_12wk r_over = Fin 10 \<and>
   weeks_until_stockout (classify_row r_over) = Some (Fin 30) \<and>
   total_available_to_12wk_forecast (classify_row r_over) = Some (Fin 40) \<and>
   risk_category (classify_row r_over) = Some ''overstocking_risk''"
  using classify_rule_order [OF r_both_fields] classify_rule_order [OF r_over_fields]
    r_both_fields r_over_fields
  by simp

text \<open>
  C2, as amended. For a record whose numeric fields are present, each of the five metrics
  is its numerator divided by the denominator in which a value of exactly 0 has been
  replaced by 1; every other denominator, one between 0 and 1 included, is used as it
  is. This is numerator / max(denominator, 1) whenever the denominator is 0 or at least
  1. With forecast\_this\_week = 0, weeks\_until\_stockout is units\_in\_stock / 1.
\<close>

theorem metrics_replace_zero_by_one:
  assumes "units_in_stock r = Fin s" and "warehouse_units r = Fin w"
    and "units_ordered r = Fin ordered" and "sales_last_week r = Fin sl"
    and "forecast_this_week r = Fin f1" and "forecast_4wk r = Fin f4"
    and "forecast_12wk r = Fin f12"
  shows
    "weeks_until_stockout (classify_row r) = Some (Fin (s / (if f1 = 0 then 1 else f1))) \<and>
     dk_warehouse_to_weekly_sales_ratio (classify_row r) =
       Some (Fin (w / (if sl = 0 then 1 else sl))) \<and>
     total_available_to_12wk_forecast (classify_row r) =
       Some (Fin ((s + w) / (if f12 = 0 then 1 else f12))) \<and>
     stock_to_weekly_sales_ratio (classify_row r) =
       Some (Fin (s / (if sl = 0 then 1 else sl))) \<and>
     ordered_vs_forecasted (classify_row r) =
       Some (Fin (ordered / (if f4 = 0 then 1 else f4))) \<and>
     (f1 = 0 \<longrightarrow> weeks_until_stockout (classify_row r) = Some (Fin (s / 1))) \<and>
     (f1 = 0 \<or> 1 \<le> f1 \<longrightarrow>
        weeks_until_stockout (classify_row r) = Some (Fin (spec_floor_ratio s f1 1))) \<and>
     (sl = 0 \<or> 1 \<le> sl \<longrightarrow>
        dk_warehouse_to_weekly_sales_ratio (classify_row r) =
          Some (Fin (spec_floor_ratio w sl 1)) \<and>
        stock_to_weekly_sales_ratio (classify_row r) = Some (Fin (spec_floor_ratio s sl 1))) \<and>
     (f12 = 0 \<or> 1 \<le> f12 \<longrightarrow>
        total_available_to_12wk_forecast (classify_row r) =
          Some (Fin (spec_floor_ratio (s + w) f12 1))) \<and>
     (f4 = 0 \<or> 1 \<le> f4 \<longrightarrow>
        ordered_vs_forecasted (classify_row r) = Some (Fin (spec_floor_ratio ordered f4 1)))"
proof -
  have 1: "weeks_until_stockout (classify_row r) =
      Some (Fin (s / (if f1 = 0 then 1 else f1)))"
    unfolding classify_row_wus assms fdiv_replace_Fin ..
  have 2: "dk_warehouse_to_weekly_sales_ratio (classify_row r) =
      Some (Fin (w / (if sl = 0 then 1 else sl)))"
    unfolding classify_row_w2s assms fdiv_replace_Fin ..
  have 3: "total_available_to_12wk_forecast (classify_row r) =
      Some (Fin ((s + w) / (if f12 = 0 then 1 else f12)))"
    unfolding classify_row_t12 assms fadd.simps fdiv_replace_Fin ..
  have 4: "stock_to_weekly_sales_ratio (classify_row r) =
      Some (Fin (s / (if sl = 0 then 1 else sl)))"
    unfolding classify_row_s2s assms fdiv_replace_Fin ..
  have 5: "ordered_vs_forecasted (classify_row r) =
      Some (Fin (ordered / (if f4 = 0 then 1 else f4)))"
    unfolding classify_row_ovf assms fdiv_replace_Fin ..
  show ?thesis
    unfolding 1 2 3 4 5 using replaced_eq_max by simp
qed

theorem metrics_replace_zero_by_one_witness:
  "forecast_this_week r_zero = Fin 0 \<and> sales_last_week r_zero = Fin 0 \<and>
   forecast_4wk r_zero = Fin 0 \<and> forecast_12wk r_zero = Fin 0 \<and>
   weeks_until_stockout (classify_row r_zero) = Some (Fin 10) \<and>
   dk_warehouse_to_weekly_sales_ratio (classify_row r_zero) = Some (Fin 5) \<and>
   total_available_to_12wk_forecast (classify_row r_zero) = Some (Fin 15) \<and>
   stock_to_weekly_sales_ratio (classify_row r_zero) = Some (Fin 10) \<and>
   ordered_vs_forecasted (classify_row r_zero) = Some (Fin 3)"
  using metrics_replace_zero_by_one [OF r_zero_fields] r_zero_fields by simp

text \<open>
  C2, as stated, fails: with 10 units in stock and a forecast of 0.5 for this week the
  classifier computes 10 / 0.5 = 20 weeks, where numerator / max(denominator, 1) is 10.
\<close>

theorem floor_is_not_max_counterexample:
  "units_in_stock r_half = Fin 10 \<and> forecast_this_week r_half = Fin (1/2) \<and>
   weeks_until_stockout (classify_row r_half) = Some (Fin 20) \<and>
   spec_floor_ratio 10 (1/2) 1 = 10 \<and>
   weeks_until_stockout (classify_row r_half) \<noteq> Some (Fin (spec_floor_ratio 10 (1/2) 1))"
  by (simp add: classify_row_wus r_half_fields fdiv_replace_Fin spec_floor_ratio_def)

text \<open>
  C3, as amended. The weeks-of-supply buckets are the intervals (0,4] (4,8] (8,12]
  (12,16] (16,20] (20,24] (24,inf), open on the left and closed on the right: every
  value above 0 falls into exactly one bucket, and a value exactly at a boundary (4, 8,
  12, ...) falls into the lower bucket.
\<close>

theorem wos_buckets_right_closed:
  "(0 < x \<longrightarrow>
     pd_cut wos_bins wos_labels (Fin x) =
       Some (if x \<le> 4 then ''0-4 weeks'' else if x \<le> 8 then ''4-8 weeks''
             else if x \<le> 12 then ''8-12 weeks'' else if x \<le> 16 then ''12-16 weeks''
             else if x \<le> 20 then ''16-20 weeks'' else if x \<le> 24 then ''20-24 weeks''
             else ''24+ weeks'')) \<and>
   (calculated_wos r = Fin x \<and> 0 < x \<longrightarrow>
     (wos_category r = Some ''0-4 weeks'' \<longleftrightarrow> 0 < x \<and> x \<le> 4) \<and>
     (wos_category r = Some ''4-8 weeks'' \<longleftrightarrow> 4 < x \<and> x \<le> 8) \<and>
     (wos_category r = Some ''8-12 weeks'' \<longleftrightarrow> 8 < x \<and> x \<le> 12) \<and>
     (wos_category r = Some ''12-16 weeks'' \<longleftrightarrow> 12 < x \<and> x \<le> 16) \<and>
     (wos_category r = Some ''16-20 weeks'' \<longleftrightarrow> 16 < x \<and> x \<le> 20) \<and>
     (wos_category r = Some ''20-24 weeks'' \<longleftrightarrow> 20 < x \<and> x \<le> 24) \<and>
     (wos_category r = Some ''24+ weeks'' \<longleftrightarrow> 24 < x))"
proof -
  have "(wos_category r = Some ''0-4 weeks'' \<longleftrightarrow> 0 < x \<and> x \<le> 4) \<and>
     (wos_category r = Some ''4-8 weeks'' \<longleftrightarrow> 4 < x \<and> x \<le> 8) \<and>
     (wos_category r = Some ''8-12 weeks'' \<longleftrightarrow> 8 < x \<and> x \<le> 12) \<and>
     (wos_category r = Some ''12-16 weeks'' \<longleftrightarrow> 12 < x \<and> x \<le> 16) \<and>
     (wos_category r = Some ''16-20 weeks'' \<longleftrightarrow> 16 < x \<and> x \<le> 20) \<and>
     (wos_category r = Some ''20-24 weeks'' \<longleftrightarrow> 20 < x \<and> x \<le> 24) \<and>
     (wos_category r = Some ''24+ weeks'' \<longleftrightarrow> 24 < x)"
    if "calculated_wos r = Fin x" "0 < x"
    unfolding wos_category_def that(1) pd_cut_wos_pos [OF that(2)] using that(2) by simp
  with pd_cut_wos_pos show ?thesis by blast
qed

theorem wos_buckets_right_closed_witness:
  "calculated_wos row_boundary = Fin 4 \<and> (0::real) < 4 \<and>
   pd_cut wos_bins wos_labels (Fin 4) = Some ''0-4 weeks'' \<and>
   wos_category row_boundary = Some ''0-4 weeks'' \<and>
   wos_category row_boundary \<noteq> Some ''4-8 weeks''"
proof -
  have h: "calculated_wos row_boundary = Fin 4"
    by (simp add: calculated_wos_def row_boundary_fields clip_lower_Fin)
  from wos_buckets_right_closed [of 4 row_boundary] h show ?thesis by simp
qed

text \<open>
  C3, as stated, fails: a title with exactly 4 weeks of supply is put into '0-4 weeks',
  not '4-8 weeks', and a title with 0 weeks of supply gets no bucket.
\<close>

theorem wos_bucket_counterexample:
  "calculated_wos row_boundary = Fin 4 \<and> wos_category row_boundary = Some ''0-4 weeks'' \<and>
   calculated_wos row_empty_shelf = Fin 0 \<and> wos_category row_empty_shelf = None"
  by (simp add: wos_category_def calculated_wos_def row_boundary_fields row_empty_shelf_fields
      clip_lower_Fin pd_cut_def wos_bins_def wos_labels_def Let_def)

text \<open>
  C4, as amended. The classifier reports no error for a record with a missing (NaN)
  numeric field: the record still receives one of the three labels. Each metric is the
  quotient of its cells as they are, only a denominator equal to 0 being replaced, so
  every metric whose numerator or denominator is missing is NaN. The rules are applied
  to these columns and every threshold test on NaN is false: rule 1 cannot fire when
  units in stock, this week's forecast, warehouse units or last week's sales are
  missing, and a record whose units in stock are missing is labelled 'normal'.
\<close>

theorem missing_field_still_labelled:
  "risk_category (classify_row r) \<in>
     {Some ''high_stockout_risk'', Some ''overstocking_risk'', Some ''normal''} \<and>
   (is_nan (units_in_stock r) \<or> is_nan (forecast_this_week r) \<longrightarrow>
      weeks_until_stockout (classify_row r) = Some NaN) \<and>
   (is_nan (warehouse_units r) \<or> is_nan (sales_last_week r) \<longrightarrow>
      dk_warehouse_to_weekly_sales_ratio (classify_row r) = Some NaN) \<and>
   (is_nan (units_in_stock r) \<or> is_nan (warehouse_units r) \<or> is_nan (forecast_12wk r) \<longrightarrow>
      total_available_to_12wk_forecast (classify_row r) = Some NaN) \<and>
   (is_nan (units_in_stock r) \<or> is_nan (sales_last_week r) \<longrightarrow>
      stock_to_weekly_sales_ratio (classify_row r) = Some NaN) \<and>
   (is_nan (units_ordered r) \<or> is_nan (forecast_4wk r) \<longrightarrow>
      ordered_vs_forecasted (classify_row r) = Some NaN) \<and>
   weeks_until_stockout (classify_row r) =
     Some (fdiv (units_in_stock r) (replace (Fin 0) (Fin 1) (forecast_this_week r))) \<and>
   dk_warehouse_to_weekly_sales_ratio (classify_row r) =
     Some (fdiv (warehouse_units r) (replace (Fin 0) (Fin 1) (sales_last_week r))) \<and>
   total_available_to_12wk_forecast (classify_row r) =
     Some (fdiv (fadd (units_in_stock r) (warehouse_units r))
                (replace (Fin 0) (Fin 1) (forecast_12wk r))) \<and>
   stock_to_weekly_sales_ratio (classify_row r) =
     Some (fdiv (units_in_stock r) (replace (Fin 0) (Fin 1) (sales_last_week r))) \<and>
   ordered_vs_forecasted (classify_row r) =
     Some (fdiv (units_ordered r) (replace (Fin 0) (Fin 1) (forecast_4wk r))) \<and>
   (\<forall>x y. fdiv NaN x = NaN \<and> fdiv x NaN = NaN \<and> fadd NaN x = NaN \<and> fadd x NaN = NaN \<and>
          replace x y NaN = NaN) \<and>
   (\<forall>wus w2s t12 s2s ovf.
      weeks_until_stockout (classify_row r) = Some wus \<and>
      dk_warehouse_to_weekly_sales_ratio (classify_row r) = Some w2s \<and>
      total_available_to_12wk_forecast (classify_row r) = Some t12 \<and>
      stock_to_weekly_sales_ratio (classify_row r) = Some s2s \<and>
      ordered_vs_forecasted (classify_row r) = Some ovf \<longrightarrow>
      risk_category (classify_row r) =
        Some (if flt wus (Fin 2) \<and> flt w2s (Fin 4) then ''high_stockout_risk''
              else if fgt t12 (Fin 20) \<or> (fgt s2s (Fin 12) \<and> fgt ovf (Fin 1.5))
              then ''overstocking_risk'' else ''normal'')) \<and>
   (\<forall>x. \<not> flt NaN x \<and> \<not> fgt NaN x) \<and>
   (is_nan (units_in_stock r) \<or> is_nan (forecast_this_week r) \<or>
    is_nan (warehouse_units r) \<or> is_nan (sales_last_week r) \<longrightarrow>
      risk_category (classify_row r) \<noteq> Some ''high_stockout_risk'') \<and>
   (is_nan (units_in_stock r) \<longrightarrow> risk_category (classify_row r) = Some ''normal'')"
proof -
  have wus: "weeks_until_stockout (classify_row r) = Some NaN"
    if "is_nan (units_in_stock r) \<or> is_nan (forecast_this_week r)"
    using that unfolding classify_row_wus is_nan_iff
    by (auto simp: replace_NaN fdiv_NaN_right)
  have w2s: "dk_warehouse_to_weekly_sales_ratio (classify_row r) = Some NaN"
    if "is_nan (warehouse_units r) \<or> is_nan (sales_last_week r)"
    using that unfolding classify_row_w2s is_nan_iff
    by (auto simp: replace_NaN fdiv_NaN_right)
  have t12: "total_available_to_12wk_forecast (classify_row r) = Some NaN"
    if "is_nan (units_in_stock r) \<or> is_nan (warehouse_units r) \<or> is_nan (forecast_12wk r)"
    using that unfolding classify_row_t12 is_nan_iff
    by (auto simp: replace_NaN fdiv_NaN_right fadd_NaN_right)
  have s2s: "stock_to_weekly_sales_ratio (classify_row r) = Some NaN"
    if "is_nan (units_in_stock r) \<or> is_nan (sales_last_week r)"
    using that unfolding classify_row_s2s is_nan_iff
    by (auto simp: replace_NaN fdiv_NaN_right)
  have ovf: "ordered_vs_forecasted (classify_row r) = Some NaN"
    if "is_nan (units_ordered r) \<or> is_nan (forecast_4wk r)"
    using that unfolding classify_row_ovf is_nan_iff
    by (auto simp: replace_NaN fdiv_NaN_right)
  have lab: "\<forall>wus w2s t12 s2s ovf.
      weeks_until_stockout (classify_row r) = Some wus \<and>
      dk_warehouse_to_weekly_sales_ratio (classify_row r) = Some w2s \<and>
      total_available_to_12wk_forecast (classify_row r) = Some t12 \<and>
      stock_to_weekly_sales_ratio (classify_row r) = Some s2s \<and>
      ordered_vs_forecasted (classify_row r) = Some ovf \<longrightarrow>
      risk_category (classify_row r) =
        Some (if flt wus (Fin 2) \<and> flt w2s (Fin 4) then ''high_stockout_risk''
              else if fgt t12 (Fin 20) \<or> (fgt s2s (Fin 12) \<and> fgt ovf (Fin 1.5))
              then ''overstocking_risk'' else ''normal'')"
    unfolding classify_row_wus classify_row_w2s classify_row_t12 classify_row_s2s
      classify_row_ovf classify_row_label by simp
  have tests: "\<forall>x. \<not> flt NaN x \<and> \<not> fgt NaN x"
    by (simp add: flt_NaN)
  have nohigh: "risk_category (classify_row r) \<noteq> Some ''high_stockout_risk''"
    if h: "is_nan (units_in_stock r) \<or> is_nan (forecast_this_week r) \<or>
      is_nan (warehouse_units r) \<or> is_nan (sales_last_week r)"
  proof -
    from h have "weeks_until_stockout (classify_row r) = Some NaN \<or>
        dk_warehouse_to_weekly_sales_ratio (classify_row r) = Some NaN"
      using wus w2s by blast
    then have "\<not> (flt (fdiv (units_in_stock r) (replace (Fin 0) (Fin 1) (forecast_this_week r)))
                  (Fin 2) \<and>
              flt (fdiv (warehouse_units r) (replace (Fin 0) (Fin 1) (sales_last_week r)))
                  (Fin 4))"
      unfolding classify_row_wus classify_row_w2s by (auto simp: flt_NaN)
    then show ?thesis unfolding classify_row_label by simp
  qed
  have normal: "risk_category (classify_row r) = Some ''normal''"
    if h: "is_nan (units_in_stock r)"
  proof -
    have "units_in_stock r = NaN" using h by (simp add: is_nan_iff)
    then show ?thesis
      by (simp add: classify_row_label fgt_def)
  qed
  have nanops: "\<forall>x y. fdiv NaN x = NaN \<and> fdiv x NaN = NaN \<and> fadd NaN x = NaN \<and>
      fadd x NaN = NaN \<and> replace x y NaN = NaN"
    by (simp add: fdiv_NaN_right fadd_NaN_right replace_NaN)
  from classify_row_label_cases [of r] wus w2s t12 s2s ovf lab tests nohigh normal nanops
    classify_row_wus [of r] classify_row_w2s [of r] classify_row_t12 [of r]
    classify_row_s2s [of r] classify_row_ovf [of r]
  show ?thesis by blast
qed

theorem missing_field_still_labelled_witness:
  "is_nan (forecast_this_week r_noforecast) \<and>
   weeks_until_stockout (classify_row r_noforecast) = Some NaN \<and>
   dk_warehouse_to_weekly_sales_ratio (classify_row r_noforecast) = Some (Fin (1/4)) \<and>
   risk_category (classify_row r_noforecast) \<noteq> Some ''high_stockout_risk'' \<and>
   risk_category (classify_row r_noforecast) = Some ''normal'' \<and>
   is_nan (units_in_stock r_nan) \<and> is_nan (warehouse_units r_nan) \<and>
   is_nan (units_ordered r_nan) \<and>
   weeks_until_stockout (classify_row r_nan) = Some NaN \<and>
   dk_warehouse_to_weekly_sales_ratio (classify_row r_nan) = Some NaN \<and>
   total_available_to_12wk_forecast (classify_row r_nan) = Some NaN \<and>
   stock_to_weekly_sales_ratio (classify_row r_nan) = Some NaN \<and>
   ordered_vs_forecasted (classify_row r_nan) = Some NaN \<and>
   risk_category (classify_row r_nan) = Some ''normal''"
  using missing_field_still_labelled [of r_noforecast] missing_field_still_labelled [of r_nan]
  by (simp add: r_noforecast_fields r_nan_fields classify_row_w2s classify_row_label
      replace_def feq_def fgt_def)

text \<open>
  C4, as stated, fails: the record with every numeric field missing is given the default
  label 'normal'.
\<close>

theorem missing_field_counterexample:
  "is_nan (units_in_stock r_nan) \<and> is_nan (warehouse_units r_nan) \<and>
   is_nan (units_ordered r_nan) \<and> is_nan (sales_last_week r_nan) \<and>
   is_nan (forecast_this_week r_nan) \<and> is_nan (forecast_4wk r_nan) \<and>
   is_nan (forecast_12wk r_nan) \<and>
   risk_category (classify_row r_nan) = Some ''normal''"
  by (simp add: classify_row_label r_nan_fields fgt_def)

text \<open>
  C5. A row of the filtered table is a reprint candidate if and only if its Weeks
  Coverage (units in stock / max(forecast\_4wk / 4, 0.1)) is below 6, its warehouse units
  are below forecast\_4wk and its print status is not "Out of Print". The recommended
  reprint is max(0, forecast\_12wk * 1.5 - units\_in\_stock - warehouse\_units) and is
  never negative.
\<close>

theorem reprint_candidates_rule:
  "(r \<in> set (reprint_candidates filtered_df) \<longleftrightarrow>
      r \<in> set filtered_df \<and> flt (weeks_coverage r) (Fin 6) \<and>
      flt (warehouse_units r) (forecast_4wk r) \<and> print_status r \<noteq> ''Out of Print'') \<and>
   \<not> flt (recommended_reprint r) (Fin 0) \<and>
   (units_in_stock r = Fin s \<and> warehouse_units r = Fin w \<and> forecast_4wk r = Fin f4 \<and>
    forecast_12wk r = Fin f12 \<longrightarrow>
      weeks_coverage r = Fin (s / max (f4 / 4) 0.1) \<and>
      (r \<in> set (reprint_candidates filtered_df) \<longleftrightarrow>
         r \<in> set filtered_df \<and> s / max (f4 / 4) 0.1 < 6 \<and> w < f4 \<and>
         print_status r \<noteq> ''Out of Print'') \<and>
      recommended_reprint r = Fin (max 0 (f12 * 1.5 - s - w)) \<and>
      0 \<le> max 0 (f12 * 1.5 - s - w))"
proof -
  have a: "r \<in> set (reprint_candidates filtered_df) \<longleftrightarrow>
      r \<in> set filtered_df \<and> flt (weeks_coverage r) (Fin 6) \<and>
      flt (warehouse_units r) (forecast_4wk r) \<and> print_status r \<noteq> ''Out of Print''"
    unfolding reprint_candidates_def set_sort_values by simp
  have b: "\<not> flt (recommended_reprint r) (Fin 0)"
    unfolding recommended_reprint_def by (rule clip_lower_not_neg) simp
  have c: "weeks_coverage r = Fin (s / max (f4 / 4) 0.1) \<and>
      (r \<in> set (reprint_candidates filtered_df) \<longleftrightarrow>
         r \<in> set filtered_df \<and> s / max (f4 / 4) 0.1 < 6 \<and> w < f4 \<and>
         print_status r \<noteq> ''Out of Print'') \<and>
      recommended_reprint r = Fin (max 0 (f12 * 1.5 - s - w)) \<and>
      0 \<le> max 0 (f12 * 1.5 - s - w)"
    if h: "units_in_stock r = Fin s" "warehouse_units r = Fin w" "forecast_4wk r = Fin f4"
      "forecast_12wk r = Fin f12"
  proof -
    have wc: "weeks_coverage r = Fin (s / max (f4 / 4) 0.1)"
      using weeks_coverage_Fin [OF h(1) h(3)] by simp
    have rr: "recommended_reprint r = Fin (max 0 (f12 * 1.5 - s - w))"
      by (rule recommended_reprint_Fin [OF h(1) h(2) h(4)])
    show ?thesis unfolding a wc rr h by simp
  qed
  from a b c show ?thesis by blast
qed

theorem reprint_candidates_rule_witness:
  "units_in_stock row_reprint = Fin 50 \<and> warehouse_units row_reprint = Fin 20 \<and>
   forecast_4wk row_reprint = Fin 40 \<and> forecast_12wk row_reprint = Fin 120 \<and>
   weeks_coverage row_reprint = Fin 5 \<and>
   row_reprint \<in> set (reprint_candidates [row_transfer, row_reprint]) \<and>
   recommended_reprint row_reprint = Fin 110"
  using reprint_candidates_rule [of row_reprint "[row_transfer, row_reprint]" 50 20 40 120]
  by (simp add: row_reprint_fields)

text \<open>
  C6. A row of the filtered table is a redistribution candidate if and only if its Weeks
  Coverage is below 8 and its warehouse units exceed forecast\_4wk * 0.5. The recommended
  transfer is forecast\_4wk * 2 - units\_in\_stock, raised to 0 and then cut at the
  warehouse units: it never exceeds the warehouse units, and with warehouse units that
  are not negative (as the data model has them) it is never negative and is
  clip(0, warehouse\_units, forecast\_4wk * 2 - units\_in\_stock).
\<close>

theorem redistribution_candidates_rule:
  "(r \<in> set (redistribution_candidates filtered_df) \<longleftrightarrow>
      r \<in> set filtered_df \<and> flt (weeks_coverage r) (Fin 8) \<and>
      fgt (warehouse_units r) (fmul (forecast_4wk r) (Fin 0.5))) \<and>
   \<not> fgt (recommended_transfer r) (warehouse_units r) \<and>
   (fle (Fin 0) (warehouse_units r) \<longrightarrow> \<not> flt (recommended_transfer r) (Fin 0)) \<and>
   (units_in_stock r = Fin s \<and> warehouse_units r = Fin w \<and> forecast_4wk r = Fin f4 \<longrightarrow>
      (r \<in> set (redistribution_candidates filtered_df) \<longleftrightarrow>
         r \<in> set filtered_df \<and> s / max (f4 / 4) 0.1 < 8 \<and> w > f4 * 0.5) \<and>
      recommended_transfer r = Fin (min w (max 0 (f4 * 2 - s))) \<and>
      min w (max 0 (f4 * 2 - s)) \<le> w \<and>
      (0 \<le> w \<longrightarrow> 0 \<le> min w (max 0 (f4 * 2 - s)) \<and>
         min w (max 0 (f4 * 2 - s)) = max 0 (min w (f4 * 2 - s))))"
proof -
  have a: "r \<in> set (redistribution_candidates filtered_df) \<longleftrightarrow>
      r \<in> set filtered_df \<and> flt (weeks_coverage r) (Fin 8) \<and>
      fgt (warehouse_units r) (fmul (forecast_4wk r) (Fin 0.5))"
    unfolding redistribution_candidates_def set_sort_values by simp
  have b: "\<not> fgt (recommended_transfer r) (warehouse_units r)"
    unfolding recommended_transfer_def by (rule clip_upper_not_above)
  have c: "\<not> flt (recommended_transfer r) (Fin 0)" if "fle (Fin 0) (warehouse_units r)"
    unfolding recommended_transfer_def
    by (rule clip_upper_not_neg [OF that]) (rule clip_lower_not_neg, simp)
  have d: "(r \<in> set (redistribution_candidates filtered_df) \<longleftrightarrow>
         r \<in> set filtered_df \<and> s / max (f4 / 4) 0.1 < 8 \<and> w > f4 * 0.5) \<and>
      recommended_transfer r = Fin (min w (max 0 (f4 * 2 - s))) \<and>
      min w (max 0 (f4 * 2 - s)) \<le> w \<and>
      (0 \<le> w \<longrightarrow> 0 \<le> min w (max 0 (f4 * 2 - s)) \<and>
         min w (max 0 (f4 * 2 - s)) = max 0 (min w (f4 * 2 - s)))"
    if h: "units_in_stock r = Fin s" "warehouse_units r = Fin w" "forecast_4wk r = Fin f4"
  proof -
    have wc: "weeks_coverage r = Fin (s / max (f4 / 4) 0.1)"
      using weeks_coverage_Fin [OF h(1) h(3)] by simp
    have rt: "recommended_transfer r = Fin (min w (max 0 (f4 * 2 - s)))"
      by (rule recommended_transfer_Fin [OF h])
    have m: "r \<in> set (redistribution_candidates filtered_df) \<longleftrightarrow>
         r \<in> set filtered_df \<and> s / max (f4 / 4) 0.1 < 8 \<and> w > f4 * 0.5"
      unfolding a wc h by (simp add: fgt_def)
    have n: "min w (max 0 (f4 * 2 - s)) \<le> w"
      "0 \<le> w \<longrightarrow> 0 \<le> min w (max 0 (f4 * 2 - s)) \<and>
         min w (max 0 (f4 * 2 - s)) = max 0 (min w (f4 * 2 - s))"
      by (auto simp: min_def max_def)
    from m rt n show ?thesis by blast
  qed
  from a b c d show ?thesis by blast
qed

theorem redistribution_candidates_rule_witness:
  "units_in_stock row_transfer = Fin 50 \<and> warehouse_units row_transfer = Fin 35 \<and>
   forecast_4wk row_transfer = Fin 60 \<and> fle (Fin 0) (warehouse_units row_transfer) \<and>
   (0::real) \<le> 35 \<and>
   row_transfer \<in> set (redistribution_candidates [row_transfer, row_reprint]) \<and>
   recommended_transfer row_transfer = Fin 35 \<and>
   \<not> flt (recommended_transfer row_transfer) (Fin 0) \<and>
   \<not> fgt (recommended_transfer row_transfer) (warehouse_units row_transfer)"
proof -
  have wc: "weeks_coverage row_transfer = Fin (10 / 3)"
    using weeks_coverage_Fin [OF row_transfer_fields(1) row_transfer_fields(3)] by simp
  from redistribution_candidates_rule [of row_transfer "[row_transfer, row_reprint]" 50 35 60]
  show ?thesis by (simp add: row_transfer_fields wc fgt_def)
qed

text \<open>
  C7 fails on the code. For a title with 10 units in stock and a 4-week forecast of 0,
  the 4-Week Coverage Ratio of the custom report and the Stock Coverage Ratio of its
  brand are both 10 / 0 = inf: these two divisions have no floor. The divisions next to
  them are guarded: Weeks of Supply and Weeks Coverage of the same title are 10 / 0.1.
\<close>

theorem unguarded_coverage_ratio:
  "units_in_stock row_zero = Fin 10 \<and> forecast_4wk row_zero = Fin 0 \<and>
   forecast_this_week row_zero = Fin 0 \<and>
   coverage_ratio_4wk (custom_report_row opts_all row_zero) = Some PInf \<and>
   forecast_4wk_sales (brand_health [row_zero] ''DK'') = Fin 0 \<and>
   stock_coverage_ratio (brand_health [row_zero] ''DK'') = PInf \<and>
   weeks_of_supply (custom_report_row opts_all row_zero) = Some (Fin 100) \<and>
   weeks_coverage row_zero = Fin 100"
  by (simp add: custom_report_row_cols opts_all_fields row_zero_fields clip_lower_Fin
      brand_health_def sum_skipna_def Let_def signed_inf_def weeks_coverage_def)

text \<open>
  C8. When the custom report adds the Reprint Recommendation, it is
  max(0, forecast\_12wk * 1.2 - units\_in\_stock - warehouse\_units), a computation of its
  own beside the reprint candidates' max(0, forecast\_12wk * 1.5 - units\_in\_stock -
  warehouse\_units): the two differ whenever forecast\_12wk > 0 and the stock is below
  forecast\_12wk * 1.5, for example 105 against 135 for a forecast of 100, 10 units in
  stock and 5 in the warehouse.
\<close>

theorem custom_reprint_recommendation:
  "(add_reprint_recommendation opts \<and>
    ''Retailer number of units in stock'' \<in> set (selected_columns opts) \<and>
    ''Current number of units in DK warehouse'' \<in> set (selected_columns opts) \<and>
    ''Forecast sales for next 12 weeks'' \<in> set (selected_columns opts) \<and>
    units_in_stock r = Fin s \<and> warehouse_units r = Fin w \<and> forecast_12wk r = Fin f12 \<longrightarrow>
      reprint_recommendation (custom_report_row opts r) =
        Some (Fin (max 0 (f12 * 1.2 - s - w))) \<and>
      recommended_reprint r = Fin (max 0 (f12 * 1.5 - s - w)) \<and>
      (0 < f12 \<and> s + w < f12 * 1.5 \<longrightarrow>
         reprint_recommendation (custom_report_row opts r) \<noteq> Some (recommended_reprint r))) \<and>
   forecast_12wk row_short = Fin 100 \<and>
   reprint_recommendation (custom_report_row opts_all row_short) = Some (Fin 105) \<and>
   recommended_reprint row_short = Fin 135"
proof -
  have a: "reprint_recommendation (custom_report_row opts r) =
        Some (Fin (max 0 (f12 * 1.2 - s - w))) \<and>
      recommended_reprint r = Fin (max 0 (f12 * 1.5 - s - w)) \<and>
      (0 < f12 \<and> s + w < f12 * 1.5 \<longrightarrow>
         reprint_recommendation (custom_report_row opts r) \<noteq> Some (recommended_reprint r))"
    if g: "add_reprint_recommendation opts"
      "''Retailer number of units in stock'' \<in> set (selected_columns opts)"
      "''Current number of units in DK warehouse'' \<in> set (selected_columns opts)"
      "''Forecast sales for next 12 weeks'' \<in> set (selected_columns opts)"
      and h: "units_in_stock r = Fin s" "warehouse_units r = Fin w" "forecast_12wk r = Fin f12"
  proof -
    have 1: "reprint_recommendation (custom_report_row opts r) =
        Some (Fin (max 0 (f12 * 1.2 - s - w)))"
      unfolding custom_report_row_cols h using g
      by (simp add: fsub_def clip_lower_Fin max.commute)
    have 2: "recommended_reprint r = Fin (max 0 (f12 * 1.5 - s - w))"
      by (rule recommended_reprint_Fin [OF h])
    have 3: "max 0 (f12 * 1.2 - s - w) \<noteq> max 0 (f12 * 1.5 - s - w)"
      if "0 < f12" "s + w < f12 * 1.5"
      using that by (auto simp: max_def)
    from 1 2 3 show ?thesis by simp
  qed
  have b: "forecast_12wk row_short = Fin 100"
    "reprint_recommendation (custom_report_row opts_all row_short) = Some (Fin 105)"
    "recommended_reprint row_short = Fin 135"
    by (simp_all add: custom_report_row_cols opts_all_fields row_short_fields
        recommended_reprint_def fsub_def clip_lower_Fin)
  from a b show ?thesis by blast
qed

theorem custom_reprint_recommendation_witness:
  "add_reprint_recommendation opts_all \<and> units_in_stock row_reprint = Fin 50 \<and>
   warehouse_units row_reprint = Fin 20 \<and> forecast_12wk row_reprint = Fin 120 \<and>
   reprint_recommendation (custom_report_row opts_all row_reprint) = Some (Fin 74) \<and>
   recommended_reprint row_reprint = Fin 110"
  using custom_reprint_recommendation [of opts_all row_reprint 50 20 120]
  by (simp add: opts_all_fields row_reprint_fields)

text \<open>
  C9, as amended. The classifier is idempotent and its result depends on the seven
  numeric sheet columns only: classifying a table twice gives what classifying it once
  gives, the sheet columns of a row are kept, and two rows that agree on the seven
  columns get the same five metrics and the same label. It is not free of side effects:
  it writes the derived columns into the table object it is given and returns that same
  object; no other table is touched.
\<close>

theorem classify_idempotent:
  "classify_inventory_risk (fst (classify_inventory_risk s df)) df =
     classify_inventory_risk s df \<and>
   snd (classify_inventory_risk s df) = df \<and>
   fst (classify_inventory_risk s df) df = map classify_row (s df) \<and>
   (\<forall>p. p \<noteq> df \<longrightarrow> fst (classify_inventory_risk s df) p = s p) \<and>
   row.truncate (classify_row r) = row.truncate r \<and>
   (units_in_stock r = units_in_stock r' \<and> warehouse_units r = warehouse_units r' \<and>
    units_ordered r = units_ordered r' \<and> sales_last_week r = sales_last_week r' \<and>
    forecast_this_week r = forecast_this_week r' \<and> forecast_4wk r = forecast_4wk r' \<and>
    forecast_12wk r = forecast_12wk r' \<longrightarrow>
      weeks_until_stockout (classify_row r) = weeks_until_stockout (classify_row r') \<and>
      dk_warehouse_to_weekly_sales_ratio (classify_row r) =
        dk_warehouse_to_weekly_sales_ratio (classify_row r') \<and>
      total_available_to_12wk_forecast (classify_row r) =
        total_available_to_12wk_forecast (classify_row r') \<and>
      stock_to_weekly_sales_ratio (classify_row r) =
        stock_to_weekly_sales_ratio (classify_row r') \<and>
      ordered_vs_forecasted (classify_row r) = ordered_vs_forecasted (classify_row r') \<and>
      risk_category (classify_row r) = risk_category (classify_row r'))"
proof -
  have a: "classify_inventory_risk (fst (classify_inventory_risk s df)) df =
     classify_inventory_risk s df"
    by (simp add: classify_inventory_risk_def classify_row_idem o_def)
  have b: "snd (classify_inventory_risk s df) = df"
    and c: "fst (classify_inventory_risk s df) df = map classify_row (s df)"
    and d: "\<forall>p. p \<noteq> df \<longrightarrow> fst (classify_inventory_risk s df) p = s p"
    by (simp_all add: classify_inventory_risk_def)
  have e: "weeks_until_stockout (classify_row r) = weeks_until_stockout (classify_row r') \<and>
      dk_warehouse_to_weekly_sales_ratio (classify_row r) =
        dk_warehouse_to_weekly_sales_ratio (classify_row r') \<and>
      total_available_to_12wk_forecast (classify_row r) =
        total_available_to_12wk_forecast (classify_row r') \<and>
      stock_to_weekly_sales_ratio (classify_row r) =
        stock_to_weekly_sales_ratio (classify_row r') \<and>
      ordered_vs_forecasted (classify_row r) = ordered_vs_forecasted (classify_row r') \<and>
      risk_category (classify_row r) = risk_category (classify_row r')"
    if "units_in_stock r = units_in_stock r'" "warehouse_units r = warehouse_units r'"
      "units_ordered r = units_ordered r'" "sales_last_week r = sales_last_week r'"
      "forecast_this_week r = forecast_this_week r'" "forecast_4wk r = forecast_4wk r'"
      "forecast_12wk r = forecast_12wk r'"
    unfolding classify_row_wus classify_row_w2s classify_row_t12 classify_row_s2s
      classify_row_ovf classify_row_label that by simp
  from a b c d e classify_row_truncate [of r] show ?thesis by blast
qed

theorem classify_idempotent_witness:
  "(1::nat) \<noteq> 0 \<and> fst (classify_inventory_risk store0 0) 1 = store0 1 \<and>
   units_in_stock r_both = units_in_stock (classify_row r_both) \<and>
   r_both \<noteq> classify_row r_both \<and>
   risk_category (classify_row r_both) = risk_category (classify_row (classify_row r_both)) \<and>
   classify_inventory_risk (fst (classify_inventory_risk store0 0)) 0 =
     classify_inventory_risk store0 0"
  using classify_idempotent [of store0 0 r_both "classify_row r_both"]
  by (simp add: classify_row_inputs)
     (simp add: classify_row_def Let_def r_both_def loaded_def row.defs)

text \<open>
  C9, as stated, fails: after the call the table that was passed in is no longer the
  table that was loaded.
\<close>

theorem classify_in_place_counterexample:
  "fst (classify_inventory_risk store0 0) 0 \<noteq> store0 0"
  by (simp add: classify_inventory_risk_def store0_def classify_row_def Let_def r_both_def
      loaded_def row.defs)

text \<open>
  C10. The batch job gives every row exactly one of the labels 'High' and 'Low' in the
  column Stock Risk, keeps the row's other columns and the number of rows: 'High' if and
  only if units\_in\_stock + warehouse\_units < forecast\_4wk, 'Low' otherwise.
\<close>

theorem stock_risk_high_or_low:
  "length (generate_report df) = length df \<and>
   (\<forall>i < length df.
      row.truncate (generate_report df ! i) = df ! i \<and>
      (stock_risk (generate_report df ! i) = ''High'' \<or>
       stock_risk (generate_report df ! i) = ''Low'') \<and>
      (stock_risk (generate_report df ! i) = ''High'' \<longleftrightarrow>
         flt (fadd (units_in_stock (df ! i)) (warehouse_units (df ! i))) (forecast_4wk (df ! i))) \<and>
      (stock_risk (generate_report df ! i) = ''Low'' \<longleftrightarrow>
         \<not> flt (fadd (units_in_stock (df ! i)) (warehouse_units (df ! i)))
              (forecast_4wk (df ! i))) \<and>
      (\<forall>s w f4. units_in_stock (df ! i) = Fin s \<and> warehouse_units (df ! i) = Fin w \<and>
                forecast_4wk (df ! i) = Fin f4 \<longrightarrow>
         (stock_risk (generate_report df ! i) = ''High'' \<longleftrightarrow> s + w < f4)))"
  by (auto simp: generate_report_def stock_risk_of_def row.defs)

theorem stock_risk_high_or_low_witness:
  "(0::nat) < length [row_reprint, row_short] \<and> 1 < length [row_reprint, row_short] \<and>
   units_in_stock row_short = Fin 10 \<and> warehouse_units row_short = Fin 5 \<and>
   stock_risk (generate_report [row_reprint, row_short] ! 0) = ''Low'' \<and>
   stock_risk (generate_report [row_reprint, row_short] ! 1) = ''High''"
  using stock_risk_high_or_low [of "[row_reprint, row_short]"]
  by (simp add: generate_report_def stock_risk_of_def row.defs row_reprint_def row_short_def sheet_row_def)

end
